theory Spec2Isabelle
  imports Complex_Main "HOL-Library.Log_Nat"
begin

section \<open>Agent Adam: command interpretation and channel formatting\<close>

text \<open>
  A shallow embedding of the Motoko modules \<open>CommandProcessor\<close> (tokenizer, intent
  classifier, entity extractor, confidence scorer, approval gate) and \<open>GHLIntegration\<close>
  (voice and workflow formatting), with the types of \<open>Types.mo\<close>.

  Conventions of the embedding:
  \<^item> \<open>Text\<close> is \<open>string\<close>, one HOL character per Motoko character, so \<open>t.size()\<close> is
    \<open>length t\<close>; \<open>Nat\<close> is \<open>nat\<close>, \<open>Time.Time\<close> is \<open>int\<close>;
  \<^item> a \<open>Float\<close> is the real number that a double-precision value denotes, and every
    literal and every operation rounds as the machine does (see below);
  \<^item> a \<open>Buffer\<close> filled by a \<open>for\<close> loop is a left fold that appends to a list;
  \<^item> \<open>Array.find\<close> is \<open>List.find\<close> (the first element that satisfies the predicate).
\<close>

subsection \<open>The functions of \<open>mo:base/Text\<close> and \<open>mo:base/Nat\<close> that the code calls\<close>

text \<open>
  \<open>Text.toLowercase\<close>: the letters \<open>A\<close> to \<open>Z\<close> are mapped to \<open>a\<close> to \<open>z\<close>, every other
  character of the model's alphabet is kept. Only the evaluations at concrete instructions
  below, all of them in lower-case ASCII, unfold this table; the general theorems hold for
  whatever \<open>Text_toLowercase\<close> computes.
\<close>

definition Char_toLower :: "char \<Rightarrow> char" where
  "Char_toLower c =
     (case map_of (zip ''ABCDEFGHIJKLMNOPQRSTUVWXYZ'' ''abcdefghijklmnopqrstuvwxyz'') c of
        Some l \<Rightarrow> l
      | None \<Rightarrow> c)"

definition Text_toLowercase :: "string \<Rightarrow> string" where
  "Text_toLowercase t = map Char_toLower t"

text \<open>
  \<open>Text.split(t, #char sep)\<close>: the fields between the separators, in order. Two fields
  are separated by exactly one separator, so consecutive separators give empty fields, and
  a trailing separator gives a last empty field; the empty text has no field at all.
\<close>

fun Text_fields :: "char \<Rightarrow> string \<Rightarrow> string \<Rightarrow> string list" where
  "Text_fields sep field [] = [field]"
| "Text_fields sep field (c # cs) =
     (if c = sep then field # Text_fields sep [] cs
      else Text_fields sep (field @ [c]) cs)"

definition Text_split :: "string \<Rightarrow> char \<Rightarrow> string list" where
  "Text_split t sep = (if t = [] then [] else Text_fields sep [] t)"

text \<open>\<open>Text.trim(t, #char c)\<close>: \<open>t\<close> without its leading and trailing occurrences of \<open>c\<close>.\<close>

definition Text_trim :: "string \<Rightarrow> char \<Rightarrow> string" where
  "Text_trim t c = rev (dropWhile (\<lambda>x. x = c) (rev (dropWhile (\<lambda>x. x = c) t)))"

text \<open>\<open>Text.contains(t, #text p)\<close>: \<open>p\<close> occurs in \<open>t\<close> as a contiguous piece.\<close>

fun Text_startsWith :: "string \<Rightarrow> string \<Rightarrow> bool" where
  "Text_startsWith t [] = True"
| "Text_startsWith [] (p # ps) = False"
| "Text_startsWith (c # cs) (p # ps) = (c = p \<and> Text_startsWith cs ps)"

fun Text_contains :: "string \<Rightarrow> string \<Rightarrow> bool" where
  "Text_contains [] p = Text_startsWith [] p"
| "Text_contains (c # cs) p = (Text_startsWith (c # cs) p \<or> Text_contains cs p)"

text \<open>\<open>Nat.toText\<close>: the decimal digits of a natural number, without leading zeros.\<close>

fun Nat_toText :: "nat \<Rightarrow> string" where
  "Nat_toText n =
     (if n < 10 then [''0123456789'' ! n]
      else Nat_toText (n div 10) @ [''0123456789'' ! (n mod 10)])"

subsection \<open>Double-precision arithmetic (\<open>Float\<close>)\<close>

text \<open>
  A Motoko \<open>Float\<close> is an IEEE 754 binary64 number. It is modelled by the real number it
  denotes. A literal, a conversion from an integer and each arithmetic operation give the
  exact result rounded to 53 significant bits, to the nearest such number, a tie going to
  the one with an even significand. Comparisons are exact.

  The exponent range is not modelled (no overflow to infinity, no subnormal numbers): the
  scorer converts the sizes of two arrays and divides a count by a size, and its values
  would leave the normal range only for arrays of more than \<open>2\<^sup>1\<^sup>0\<^sup>2\<^sup>3\<close> elements.
\<close>

type_synonym Float = real

definition pow2 :: "int \<Rightarrow> real" where
  "pow2 e = (if 0 \<le> e then 2 ^ nat e else 1 / 2 ^ nat (- e))"

text \<open>The binary exponent of a positive number: \<open>pow2 (binexp x) \<le> x < pow2 (binexp x + 1)\<close>.\<close>

definition binexp :: "real \<Rightarrow> int" where
  "binexp x = (if 1 \<le> x then bitlen \<lfloor>x\<rfloor> - 1 else - bitlen (\<lceil>1 / x\<rceil> - 1))"

definition roundTiesToEven :: "real \<Rightarrow> int" where
  "roundTiesToEven x =
     (let f = \<lfloor>x\<rfloor>; d = x - of_int f in
      if d < 1 / 2 then f
      else if 1 / 2 < d then f + 1
      else if even f then f else f + 1)"

text \<open>
  Rounding to binary64: the number is scaled so that its integer part has 53 bits, rounded
  to an integer, and scaled back.
\<close>

definition Float_round :: "real \<Rightarrow> Float" where
  "Float_round x =
     (if x = 0 then 0
      else let e = binexp \<bar>x\<bar> - 52
           in of_int (roundTiesToEven (x / pow2 e)) * pow2 e)"

text \<open>A decimal literal of the source, such as \<open>0.1\<close>, denotes the double nearest to it.\<close>

definition Float_lit :: "real \<Rightarrow> Float" where
  "Float_lit x = Float_round x"

definition Float_fromInt :: "int \<Rightarrow> Float" where
  "Float_fromInt i = Float_round (of_int i)"

definition Float_add :: "Float \<Rightarrow> Float \<Rightarrow> Float" where
  "Float_add x y = Float_round (x + y)"

definition Float_mul :: "Float \<Rightarrow> Float \<Rightarrow> Float" where
  "Float_mul x y = Float_round (x * y)"

text \<open>The divisor is never zero where the code divides: the division is under a guard.\<close>

definition Float_div :: "Float \<Rightarrow> Float \<Rightarrow> Float" where
  "Float_div x y = Float_round (x / y)"

subsection \<open>Types.mo\<close>

record CommandContext =
  locationId :: string
  sourceMetadata :: "string option"
  priority :: nat
  retryCount :: nat

datatype ExecutionStatus =
  Pending
| Processing
| Completed
| Failed string
| PartialSuccess "string list"

record ExecutedAction =
  actionType :: string
  description :: string
  result :: string
  timestamp :: int

record ExecutionResult =
  commandId :: string
  status :: ExecutionStatus
  actions :: "ExecutedAction list"
  insights :: "string list"
  nextSteps :: "string list"
  duration :: nat

text \<open>
  Field names are unique across the records of a theory: the \<open>actions\<close> of a
  \<open>VoiceResponse\<close> are \<open>voiceActions\<close> here, and the \<open>value\<close> and \<open>confidence\<close> of an
  \<open>Entity\<close> are \<open>entityValue\<close> and \<open>entityConfidence\<close>.
\<close>

record VoiceResponse =
  spokenText :: string
  voiceActions :: "string list"
  shouldEndCall :: bool
  transferNumber :: "string option"

record WorkflowDecision =
  decision :: string
  nextStep :: string
  variables :: "(string \<times> string) list"

datatype Intent =
  Create string
| Update string string
| Delete string string
| Query string "string list"
| Automation string "string list"
| Unknown

record Entity =
  entityType :: string
  entityValue :: string
  entityConfidence :: Float

record CommandInterpretation =
  intent :: Intent
  entities :: "Entity list"
  confidence :: Float
  requiresApproval :: bool

subsection \<open>CommandProcessor.mo\<close>

definition stopWords :: "string list" where
  "stopWords =
     [''the'', ''a'', ''an'', ''and'', ''or'', ''but'', ''in'', ''on'', ''at'', ''to'', ''for'',
      ''of'', ''with'', ''by'', ''from'', ''up'', ''about'', ''into'', ''through'', ''during'',
      ''before'', ''after'', ''above'', ''below'', ''between'', ''among'', ''is'', ''are'',
      ''was'', ''were'', ''be'', ''been'', ''being'', ''have'', ''has'', ''had'', ''do'', ''does'',
      ''did'', ''will'', ''would'', ''could'', ''should'', ''may'', ''might'', ''must'', ''can'']"

definition ghlEntities :: "string list" where
  "ghlEntities =
     [''contact'', ''lead'', ''opportunity'', ''pipeline'', ''workflow'', ''campaign'',
      ''appointment'', ''calendar'', ''form'', ''funnel'', ''website'', ''automation'',
      ''tag'', ''trigger'', ''action'', ''email'', ''sms'', ''call'', ''task'', ''note'',
      ''invoice'', ''payment'', ''subscription'', ''location'', ''user'', ''agency'']"

definition createKeywords :: "string list" where
  "createKeywords =
     [''create'', ''build'', ''make'', ''add'', ''new'', ''generate'', ''setup'', ''start'']"

definition updateKeywords :: "string list" where
  "updateKeywords =
     [''update'', ''modify'', ''change'', ''edit'', ''revise'', ''alter'', ''adjust'']"

definition deleteKeywords :: "string list" where
  "deleteKeywords =
     [''delete'', ''remove'', ''cancel'', ''stop'', ''end'', ''terminate'', ''clear'']"

definition queryKeywords :: "string list" where
  "queryKeywords =
     [''show'', ''get'', ''list'', ''find'', ''search'', ''view'', ''display'', ''check'']"

definition automationKeywords :: "string list" where
  "automationKeywords =
     [''automate'', ''trigger'', ''activate'', ''schedule'', ''set'', ''configure'']"

definition isStopWord :: "string \<Rightarrow> bool" where
  "isStopWord word = (find (\<lambda>stopWord. stopWord = word) stopWords \<noteq> None)"

definition extractKeywords :: "string \<Rightarrow> string list" where
  "extractKeywords instruction =
     (let words = Text_split (Text_toLowercase instruction) (CHR '' '') in
      foldl (\<lambda>filtered word.
               let cleanWord = Text_trim word (CHR '' '') in
               if length cleanWord > 2 \<and> \<not> isStopWord cleanWord
               then filtered @ [cleanWord] else filtered)
            [] words)"

definition hasAnyKeyword :: "string list \<Rightarrow> string list \<Rightarrow> bool" where
  "hasAnyKeyword words keywords =
     (find (\<lambda>word. find (\<lambda>keyword. keyword = word) keywords \<noteq> None) words \<noteq> None)"

definition findGHLEntity :: "string list \<Rightarrow> string" where
  "findGHLEntity words =
     (case find (\<lambda>word. find (\<lambda>entity. entity = word) ghlEntities \<noteq> None) words of
        Some entity \<Rightarrow> entity
      | None \<Rightarrow> ''unknown'')"

definition extractIdentifier :: "string \<Rightarrow> string" where
  "extractIdentifier instruction =
     (if Text_contains instruction [CHR 0x22] then ''quoted_identifier''
      else if Text_contains instruction ''id:'' then ''extracted_id''
      else ''auto_detected'')"

definition filterWords :: "string list" where
  "filterWords =
     [''today'', ''yesterday'', ''week'', ''month'', ''active'', ''inactive'', ''new'', ''old'']"

definition extractFilters :: "string list \<Rightarrow> string list" where
  "extractFilters words =
     foldl (\<lambda>filters word.
              if find (\<lambda>filter. filter = word) filterWords \<noteq> None
              then filters @ [word] else filters)
           [] words"

definition triggerTypes :: "string list" where
  "triggerTypes = [''email'', ''form'', ''webhook'', ''schedule'', ''tag'', ''status'']"

definition findTriggerType :: "string list \<Rightarrow> string" where
  "findTriggerType words =
     (case find (\<lambda>word. find (\<lambda>trigger. trigger = word) triggerTypes \<noteq> None) words of
        Some trigger \<Rightarrow> trigger
      | None \<Rightarrow> ''manual'')"

text \<open>Four checks in a row, each adding to the same buffer.\<close>

definition extractConditions :: "string \<Rightarrow> string list" where
  "extractConditions instruction =
     (let conditions = [];
          conditions = (if Text_contains instruction ''when''
                        then conditions @ [''conditional''] else conditions);
          conditions = (if Text_contains instruction ''if''
                        then conditions @ [''conditional''] else conditions);
          conditions = (if Text_contains instruction ''after''
                        then conditions @ [''temporal''] else conditions);
          conditions = (if Text_contains instruction ''before''
                        then conditions @ [''temporal''] else conditions)
      in conditions)"

definition detectIntent :: "string list \<Rightarrow> string \<Rightarrow> Intent" where
  "detectIntent words instruction =
     (let lowerInstruction = Text_toLowercase instruction in
      if hasAnyKeyword words createKeywords then Create (findGHLEntity words)
      else if hasAnyKeyword words updateKeywords
        then Update (findGHLEntity words) (extractIdentifier lowerInstruction)
      else if hasAnyKeyword words deleteKeywords
        then Delete (findGHLEntity words) (extractIdentifier lowerInstruction)
      else if hasAnyKeyword words queryKeywords
        then Query (findGHLEntity words) (extractFilters words)
      else if hasAnyKeyword words automationKeywords
        then Automation (findTriggerType words) (extractConditions lowerInstruction)
      else Unknown)"

definition timeWords :: "string list" where
  "timeWords = [''today'', ''tomorrow'', ''yesterday'', ''week'', ''month'', ''year'']"

text \<open>Three loops over the keywords, one after the other, all adding to one buffer.\<close>

definition extractEntities :: "string list \<Rightarrow> string \<Rightarrow> Entity list" where
  "extractEntities words instruction =
     (let entities = [];
          entities =
            foldl (\<lambda>buf word.
                     if find (\<lambda>entity. entity = word) ghlEntities \<noteq> None
                     then buf @ [\<lparr>entityType = ''ghl_object'', entityValue = word,
                                  entityConfidence = Float_lit 0.9\<rparr>]
                     else buf)
                  entities words;
          entities =
            foldl (\<lambda>buf word.
                     if find (\<lambda>timeWord. timeWord = word) timeWords \<noteq> None
                     then buf @ [\<lparr>entityType = ''time_reference'', entityValue = word,
                                  entityConfidence = Float_lit 0.8\<rparr>]
                     else buf)
                  entities words;
          entities =
            foldl (\<lambda>buf word.
                     if word = ''1'' \<or> word = ''2'' \<or> word = ''5'' \<or> word = ''10''
                     then buf @ [\<lparr>entityType = ''number'', entityValue = word,
                                  entityConfidence = Float_lit 0.7\<rparr>]
                     else buf)
                  entities words
      in entities)"

definition calculateConfidence :: "Intent \<Rightarrow> Entity list \<Rightarrow> string list \<Rightarrow> Float" where
  "calculateConfidence intent' entities' words =
     (let baseConfidence = (case intent' of Unknown \<Rightarrow> Float_lit 0.1 | _ \<Rightarrow> Float_lit 0.6);
          entityBoost = Float_mul (Float_fromInt (int (length entities'))) (Float_lit 0.1);
          baseConfidence = Float_add baseConfidence entityBoost;
          wordCount = Float_fromInt (int (length words));
          baseConfidence =
            (if wordCount > Float_lit 0.0 then
               let ghlEntityCount =
                     Float_fromInt
                       (foldl (\<lambda>acc entity.
                                 if entityType entity = ''ghl_object'' then acc + 1 else acc)
                              0 entities');
                   density = Float_div ghlEntityCount wordCount
               in Float_add baseConfidence (Float_mul density (Float_lit 0.2))
             else baseConfidence)
      in if baseConfidence > Float_lit 1.0 then Float_lit 1.0 else baseConfidence)"

fun shouldRequireApproval :: "Intent \<Rightarrow> CommandContext \<Rightarrow> bool" where
  "shouldRequireApproval (Delete _ _) context' = True"
| "shouldRequireApproval (Create objectType) context' =
     (objectType = ''workflow'' \<or> objectType = ''campaign'' \<or> objectType = ''automation'')"
| "shouldRequireApproval (Automation _ _) context' = True"
| "shouldRequireApproval _ context' = (priority context' \<ge> 3)"

definition interpretCommand :: "string \<Rightarrow> CommandContext \<Rightarrow> CommandInterpretation" where
  "interpretCommand instruction context' =
     (let words = extractKeywords instruction;
          intent' = detectIntent words instruction;
          entities' = extractEntities words instruction;
          confidence' = calculateConfidence intent' entities' words;
          requiresApproval' = shouldRequireApproval intent' context'
      in \<lparr>intent = intent', entities = entities', confidence = confidence',
          requiresApproval = requiresApproval'\<rparr>)"

subsection \<open>GHLIntegration: voice and workflow formatting\<close>

definition generateVoiceActions :: "ExecutedAction list \<Rightarrow> string list" where
  "generateVoiceActions actions' =
     foldl (\<lambda>buf action.
              if actionType action = ''create_contact'' then buf @ [''contact_created'']
              else if actionType action = ''send_email'' then buf @ [''email_sent'']
              else if actionType action = ''schedule_appointment''
                then buf @ [''appointment_scheduled'']
              else if actionType action = ''update_opportunity''
                then buf @ [''opportunity_updated'']
              else buf @ [''action_completed''])
           [] actions'"

definition generateSpokenText :: "ExecutionResult \<Rightarrow> string" where
  "generateSpokenText r =
     (case status r of
        Completed \<Rightarrow>
          (case insights r of
             first # _ \<Rightarrow> first
           | [] \<Rightarrow> ''I've completed your request successfully.'')
      | Failed reason \<Rightarrow> ''I'm sorry, but I encountered an issue: '' @ reason
      | Processing \<Rightarrow> ''I'm currently processing your request. Please hold on.''
      | _ \<Rightarrow> ''Your request is being handled.'')"

definition shouldEndVoiceCall :: "ExecutionResult \<Rightarrow> bool" where
  "shouldEndVoiceCall r = (case status r of Failed _ \<Rightarrow> True | _ \<Rightarrow> False)"

text \<open>The loop returns at the first action that asks for a human.\<close>

fun transferScan :: "ExecutedAction list \<Rightarrow> string option" where
  "transferScan [] = None"
| "transferScan (action # rest) =
     (if actionType action = ''transfer_to_human'' then Some ''+1234567890''
      else transferScan rest)"

definition getTransferNumber :: "ExecutionResult \<Rightarrow> string option" where
  "getTransferNumber r = transferScan (actions r)"

definition formatVoiceResponse :: "ExecutionResult \<Rightarrow> VoiceResponse" where
  "formatVoiceResponse r =
     (let spokenText' = generateSpokenText r;
          actions' = generateVoiceActions (actions r)
      in \<lparr>spokenText = spokenText', voiceActions = actions',
          shouldEndCall = shouldEndVoiceCall r, transferNumber = getTransferNumber r\<rparr>)"

fun formatExecutionStatus :: "ExecutionStatus \<Rightarrow> string" where
  "formatExecutionStatus Pending = ''pending''"
| "formatExecutionStatus Processing = ''processing''"
| "formatExecutionStatus Completed = ''completed''"
| "formatExecutionStatus (Failed _) = ''failed''"
| "formatExecutionStatus (PartialSuccess _) = ''partial_success''"

definition generateWorkflowVariables :: "ExecutionResult \<Rightarrow> (string \<times> string) list" where
  "generateWorkflowVariables r =
     (let variables' = [];
          variables' = variables' @ [(''execution_status'', formatExecutionStatus (status r))];
          variables' = variables' @ [(''command_id'', commandId r)];
          variables' = variables' @ [(''duration'', Nat_toText (duration r))]
      in variables')"

definition generateWorkflowDecision :: "ExecutionResult \<Rightarrow> WorkflowDecision" where
  "generateWorkflowDecision r =
     (case status r of
        Completed \<Rightarrow>
          \<lparr>decision = ''continue'', nextStep = ''next'',
           variables = generateWorkflowVariables r\<rparr>
      | Failed _ \<Rightarrow> \<lparr>decision = ''stop'', nextStep = ''error'', variables = []\<rparr>
      | _ \<Rightarrow> \<lparr>decision = ''wait'', nextStep = ''pending'', variables = []\<rparr>)"

section \<open>Properties\<close>

subsection \<open>Buffers, searches and texts\<close>

text \<open>A loop that appends the image of every element passing a test computes a filter.\<close>

lemma foldl_append_filter:
  "foldl (\<lambda>buf x. if P x then buf @ [f x] else buf) acc xs = acc @ map f (filter P xs)"
  by (induction xs arbitrary: acc) simp_all

lemma find_eq_iff: "(find (\<lambda>k. k = w) ks \<noteq> None) = (w \<in> set ks)"
  by (induction ks) auto

lemma hasAnyKeyword_iff: "hasAnyKeyword words keywords = (set words \<inter> set keywords \<noteq> {})"
  unfolding hasAnyKeyword_def find_eq_iff
  by (induction words) auto

lemma count_fold:
  "foldl (\<lambda>acc e. if P e then acc + 1 else acc) (a::int) es = a + int (length (filter P es))"
  by (induction es arbitrary: a) simp_all

lemma Text_startsWith_self: "Text_startsWith (r @ s) r"
  by (induction r) simp_all

lemma Text_contains_Nil: "Text_contains t []"
  by (cases t) simp_all

lemma Text_contains_self: "Text_contains (r @ s) r"
  by (cases r) (simp_all add: Text_startsWith_self Text_contains_Nil)

lemma Text_contains_append: "Text_contains (p @ r) r"
proof (induction p)
  case Nil
  show ?case using Text_contains_self [of r "[]"] by simp
next
  case (Cons c p)
  then show ?case by simp
qed

subsection \<open>The tokenizer\<close>

lemma extractKeywords_filter:
  "extractKeywords instruction =
     filter (\<lambda>w. length w > 2 \<and> \<not> isStopWord w)
       (map (\<lambda>word. Text_trim word (CHR '' ''))
          (Text_split (Text_toLowercase instruction) (CHR '' '')))"
proof -
  have "foldl (\<lambda>filtered word.
               let cleanWord = Text_trim word (CHR '' '') in
               if length cleanWord > 2 \<and> \<not> isStopWord cleanWord
               then filtered @ [cleanWord] else filtered) acc ws
        = acc @ filter (\<lambda>w. length w > 2 \<and> \<not> isStopWord w)
                  (map (\<lambda>word. Text_trim word (CHR '' '')) ws)" for acc ws
    by (induction ws arbitrary: acc) (simp_all add: Let_def)
  then show ?thesis by (simp add: extractKeywords_def Let_def)
qed

lemma keyword_length: "w \<in> set (extractKeywords instruction) \<Longrightarrow> length w > 2"
  by (simp add: extractKeywords_filter)

subsection \<open>The entity extractor\<close>

lemma extractEntities_eq:
  "extractEntities words instruction =
     map (\<lambda>w. \<lparr>entityType = ''ghl_object'', entityValue = w, entityConfidence = Float_lit 0.9\<rparr>)
         (filter (\<lambda>w. w \<in> set ghlEntities) words)
     @ map (\<lambda>w. \<lparr>entityType = ''time_reference'', entityValue = w, entityConfidence = Float_lit 0.8\<rparr>)
         (filter (\<lambda>w. w \<in> set timeWords) words)
     @ map (\<lambda>w. \<lparr>entityType = ''number'', entityValue = w, entityConfidence = Float_lit 0.7\<rparr>)
         (filter (\<lambda>w. w \<in> {''1'', ''2'', ''5'', ''10''}) words)"
  unfolding extractEntities_def Let_def foldl_append_filter find_eq_iff
  by simp

subsection \<open>Rounding\<close>

lemma pow2_pos: "0 < pow2 e"
  by (simp add: pow2_def)

lemma pow2_powr: "pow2 e = 2 powr (real_of_int e)"
proof (cases "0 \<le> e")
  case True
  then show ?thesis by (simp add: pow2_def powr_realpow [symmetric])
next
  case False
  then have "2 powr (real_of_int e) = 1 / 2 powr (real (nat (- e)))"
    by (simp add: powr_minus_divide [symmetric])
  with False show ?thesis by (simp add: pow2_def powr_realpow [symmetric])
qed

lemma pow2_mono: "a \<le> b \<Longrightarrow> pow2 a \<le> pow2 b"
  by (simp add: pow2_powr)

lemma roundTiesToEven_floor: "\<lfloor>x\<rfloor> \<le> roundTiesToEven x"
  by (simp add: roundTiesToEven_def Let_def)

lemma roundTiesToEven_near: "\<bar>real_of_int (roundTiesToEven x) - x\<bar> \<le> 1 / 2"
  unfolding roundTiesToEven_def Let_def
  by (auto simp: abs_if) linarith+

text \<open>\<open>binexp\<close> is the binary exponent.\<close>

lemma binexp_lower:
  assumes "0 < x"
  shows "pow2 (binexp x) \<le> x"
proof (cases "1 \<le> x")
  case True
  then have p: "0 < \<lfloor>x\<rfloor>" by linarith
  from bitlen_bounds [OF p] have "2 ^ nat (bitlen \<lfloor>x\<rfloor> - 1) \<le> \<lfloor>x\<rfloor>" ..
  then have "real_of_int (2 ^ nat (bitlen \<lfloor>x\<rfloor> - 1)) \<le> real_of_int \<lfloor>x\<rfloor>"
    by (rule of_int_le_iff [THEN iffD2])
  also have "\<dots> \<le> x" by simp
  finally have "2 ^ nat (bitlen \<lfloor>x\<rfloor> - 1) \<le> x" by simp
  moreover from p have "0 \<le> bitlen \<lfloor>x\<rfloor> - 1"
    by (simp add: bitlen_alt_def)
  ultimately show ?thesis using True by (simp add: binexp_def pow2_def)
next
  case False
  with assms have lt: "1 < 1 / x" by simp
  then have m: "0 < \<lceil>1 / x\<rceil> - 1" by linarith
  from bitlen_bounds [OF m] have "\<lceil>1 / x\<rceil> - 1 < 2 ^ nat (bitlen (\<lceil>1 / x\<rceil> - 1))" ..
  then have c: "\<lceil>1 / x\<rceil> \<le> 2 ^ nat (bitlen (\<lceil>1 / x\<rceil> - 1))" by linarith
  have "1 / x \<le> real_of_int \<lceil>1 / x\<rceil>" by (rule le_of_int_ceiling)
  also from c have "\<dots> \<le> real_of_int (2 ^ nat (bitlen (\<lceil>1 / x\<rceil> - 1)))"
    by (rule of_int_le_iff [THEN iffD2])
  finally have "1 / x \<le> 2 ^ nat (bitlen (\<lceil>1 / x\<rceil> - 1))" by simp
  then have "1 / 2 ^ nat (bitlen (\<lceil>1 / x\<rceil> - 1)) \<le> x"
    using assms by (simp add: field_simps)
  moreover have "0 < bitlen (\<lceil>1 / x\<rceil> - 1)"
    using m by (simp add: bitlen_alt_def)
  ultimately show ?thesis using False by (simp add: binexp_def pow2_def)
qed

lemma binexp_upper:
  assumes "0 < x"
  shows "x < pow2 (binexp x + 1)"
proof (cases "1 \<le> x")
  case True
  then have p: "0 < \<lfloor>x\<rfloor>" by linarith
  from bitlen_bounds [OF p] have "\<lfloor>x\<rfloor> < 2 ^ nat (bitlen \<lfloor>x\<rfloor>)" ..
  then have "\<lfloor>x\<rfloor> + 1 \<le> 2 ^ nat (bitlen \<lfloor>x\<rfloor>)" by linarith
  then have c: "real_of_int (\<lfloor>x\<rfloor> + 1) \<le> real_of_int (2 ^ nat (bitlen \<lfloor>x\<rfloor>))"
    by (rule of_int_le_iff [THEN iffD2])
  have "x < real_of_int (\<lfloor>x\<rfloor> + 1)" by linarith
  also note c
  finally have "x < 2 ^ nat (bitlen \<lfloor>x\<rfloor>)" by simp
  moreover have "0 \<le> bitlen \<lfloor>x\<rfloor>" by (rule bitlen_nonneg)
  ultimately show ?thesis using True by (simp add: binexp_def pow2_def)
next
  case False
  with assms have lt: "1 < 1 / x" by simp
  then have m: "0 < \<lceil>1 / x\<rceil> - 1" by linarith
  let ?j = "bitlen (\<lceil>1 / x\<rceil> - 1)"
  have j: "0 < ?j" using m by (simp add: bitlen_alt_def)
  from bitlen_bounds [OF m] have "2 ^ nat (?j - 1) \<le> \<lceil>1 / x\<rceil> - 1" ..
  then have "real_of_int (2 ^ nat (?j - 1)) \<le> real_of_int (\<lceil>1 / x\<rceil> - 1)"
    by (rule of_int_le_iff [THEN iffD2])
  also have "real_of_int (\<lceil>1 / x\<rceil> - 1) < 1 / x" by linarith
  finally have "2 ^ nat (?j - 1) < 1 / x" by simp
  then have "x < 1 / 2 ^ nat (?j - 1)"
    using assms by (simp add: field_simps)
  moreover have "pow2 (- ?j + 1) = 1 / 2 ^ nat (?j - 1)"
    using j by (auto simp: pow2_def)
  ultimately show ?thesis using False by (simp add: binexp_def)
qed

text \<open>Rounding moves a number by at most half a unit in the last place.\<close>

lemma Float_round_error: "\<bar>Float_round x - x\<bar> \<le> pow2 (binexp \<bar>x\<bar> - 52) / 2"
proof (cases "x = 0")
  case True
  then show ?thesis using pow2_pos [of "binexp 0 - 52"] by (simp add: Float_round_def)
next
  case False
  let ?p = "pow2 (binexp \<bar>x\<bar> - 52)"
  have p: "0 < ?p" by (rule pow2_pos)
  have "Float_round x - x = (real_of_int (roundTiesToEven (x / ?p)) - x / ?p) * ?p"
    using False p by (simp add: Float_round_def Let_def field_simps)
  then have "\<bar>Float_round x - x\<bar> = \<bar>real_of_int (roundTiesToEven (x / ?p)) - x / ?p\<bar> * ?p"
    using p by (simp add: abs_mult)
  also have "\<dots> \<le> 1 / 2 * ?p"
    using roundTiesToEven_near [of "x / ?p"] p by (intro mult_right_mono) simp_all
  finally show ?thesis by simp
qed

text \<open>So every literal, conversion and operation has a relative error of at most \<open>2\<^sup>-\<^sup>5\<^sup>3\<close>.\<close>

lemma Float_round_relative_error: "\<bar>Float_round x - x\<bar> \<le> \<bar>x\<bar> / 2 ^ 53"
proof (cases "x = 0")
  case True
  then show ?thesis by (simp add: Float_round_def)
next
  case False
  then have a: "0 < \<bar>x\<bar>" by simp
  have "pow2 (binexp \<bar>x\<bar> - 52) = pow2 (binexp \<bar>x\<bar>) / 2 ^ 52"
    by (simp add: pow2_powr powr_diff)
  then have "pow2 (binexp \<bar>x\<bar> - 52) / 2 = pow2 (binexp \<bar>x\<bar>) / 2 ^ 53"
    by simp
  also have "\<dots> \<le> \<bar>x\<bar> / 2 ^ 53"
    using binexp_lower [OF a] by (simp add: divide_right_mono)
  finally show ?thesis using Float_round_error [of x] by linarith
qed

lemma Float_round_nonneg: "0 \<le> x \<Longrightarrow> 0 \<le> Float_round x"
proof -
  assume x: "0 \<le> x"
  have "0 \<le> roundTiesToEven (x / pow2 e)" for e
  proof -
    have "0 \<le> x / pow2 e" using x pow2_pos [of e] by simp
    then have "0 \<le> \<lfloor>x / pow2 e\<rfloor>" by simp
    then show ?thesis using roundTiesToEven_floor [of "x / pow2 e"] by linarith
  qed
  then show ?thesis using pow2_pos by (simp add: Float_round_def Let_def less_imp_le)
qed

lemma Float_round_pos: "0 < x \<Longrightarrow> 0 < Float_round x"
proof -
  assume x: "0 < x"
  let ?e = "binexp x - 52"
  have "pow2 ?e \<le> pow2 (binexp x)" by (rule pow2_mono) simp
  also have "\<dots> \<le> x" using x by (rule binexp_lower)
  finally have "1 \<le> x / pow2 ?e" using pow2_pos [of ?e] by simp
  then have "1 \<le> \<lfloor>x / pow2 ?e\<rfloor>" by linarith
  then have "0 < roundTiesToEven (x / pow2 ?e)"
    using roundTiesToEven_floor [of "x / pow2 ?e"] by linarith
  then show ?thesis using x pow2_pos [of ?e] by (simp add: Float_round_def Let_def)
qed

lemma Float_lit_0: "Float_lit 0 = 0"
  by (simp add: Float_lit_def Float_round_def)

lemma Float_lit_1: "Float_lit 1 = 1"
  by (simp add: Float_lit_def Float_round_def binexp_def pow2_def roundTiesToEven_def Let_def
      compute_bitlen)

text \<open>The doubles of the scorer's literals.\<close>

lemma Float_lit_values:
  "Float_lit 0.1 = 3602879701896397 / 36028797018963968"
  "Float_lit 0.2 = 3602879701896397 / 18014398509481984"
  "Float_lit 0.6 = 5404319552844595 / 9007199254740992"
  by (simp_all add: Float_lit_def Float_round_def binexp_def pow2_def roundTiesToEven_def Let_def
      compute_bitlen)

lemma Float_lit_nonneg: "0 \<le> x \<Longrightarrow> 0 \<le> Float_lit x"
  by (simp add: Float_lit_def Float_round_nonneg)

lemma Float_fromInt_nonneg: "0 \<le> Float_fromInt (int n)"
  by (simp add: Float_fromInt_def Float_round_nonneg)

lemma Float_fromInt_pos_iff: "(0 < Float_fromInt (int (length xs))) = (xs \<noteq> [])"
proof (cases xs)
  case Nil
  then show ?thesis by (simp add: Float_fromInt_def Float_round_def)
next
  case (Cons y ys)
  then have "0 < real_of_int (int (length xs))" by simp
  then have "0 < Float_fromInt (int (length xs))"
    unfolding Float_fromInt_def by (rule Float_round_pos)
  with Cons show ?thesis by simp
qed

lemma Float_add_nonneg: "0 \<le> x \<Longrightarrow> 0 \<le> y \<Longrightarrow> 0 \<le> Float_add x y"
  by (simp add: Float_add_def Float_round_nonneg)

lemma Float_mul_nonneg: "0 \<le> x \<Longrightarrow> 0 \<le> y \<Longrightarrow> 0 \<le> Float_mul x y"
  by (simp add: Float_mul_def Float_round_nonneg)

lemma Float_div_nonneg: "0 \<le> x \<Longrightarrow> 0 \<le> y \<Longrightarrow> 0 \<le> Float_div x y"
  by (simp add: Float_div_def Float_round_nonneg)

lemma Float_mul_commute: "Float_mul x y = Float_mul y x"
  by (simp add: Float_mul_def mult.commute)

subsection \<open>The scorer\<close>

text \<open>
  The score before the cap, with the operations in the order of the source: the base, plus
  a tenth per entity, plus, when there is a keyword, a fifth of the density of CRM objects.
\<close>

lemma calculateConfidence_eq:
  "calculateConfidence i es ws =
     (let b = Float_add (case i of Unknown \<Rightarrow> Float_lit 0.1 | _ \<Rightarrow> Float_lit 0.6)
                (Float_mul (Float_lit 0.1) (Float_fromInt (int (length es))));
          b' = (if ws = [] then b
                else Float_add b
                       (Float_mul (Float_lit 0.2)
                          (Float_div
                             (Float_fromInt
                                (int (length (filter (\<lambda>e. entityType e = ''ghl_object'') es))))
                             (Float_fromInt (int (length ws))))))
      in min 1 b')"
proof -
  have w: "(Float_lit 0.0 < Float_fromInt (int (length ws))) = (ws \<noteq> [])"
    by (simp add: Float_lit_0 Float_fromInt_pos_iff)
  have c: "foldl (\<lambda>acc entity. if entityType entity = ''ghl_object'' then acc + 1 else acc)
             0 es
           = int (length (filter (\<lambda>e. entityType e = ''ghl_object'') es))"
    by (simp add: count_fold)
  have m1: "Float_mul (Float_fromInt (int (length es))) (Float_lit 0.1)
            = Float_mul (Float_lit 0.1) (Float_fromInt (int (length es)))"
    by (rule Float_mul_commute)
  have m2: "Float_mul d (Float_lit 0.2) = Float_mul (Float_lit 0.2) d" for d
    by (rule Float_mul_commute)
  show ?thesis
    unfolding calculateConfidence_def Let_def w c m1 m2
    by (simp add: Float_lit_1 min_def)
qed

lemma calculateConfidence_bounds:
  "0 \<le> calculateConfidence i es ws \<and> calculateConfidence i es ws \<le> 1"
proof -
  have base: "0 \<le> (case i of Unknown \<Rightarrow> Float_lit 0.1 | _ \<Rightarrow> Float_lit 0.6)"
    by (cases i) (simp_all add: Float_lit_nonneg)
  have b: "0 \<le> Float_add (case i of Unknown \<Rightarrow> Float_lit 0.1 | _ \<Rightarrow> Float_lit 0.6)
                (Float_mul (Float_lit 0.1) (Float_fromInt (int (length es))))"
    using base
    by (intro Float_add_nonneg Float_mul_nonneg Float_lit_nonneg Float_fromInt_nonneg) simp_all
  have d: "0 \<le> Float_mul (Float_lit 0.2)
                 (Float_div
                    (Float_fromInt
                       (int (length (filter (\<lambda>e. entityType e = ''ghl_object'') es))))
                    (Float_fromInt (int (length ws))))"
    by (intro Float_mul_nonneg Float_div_nonneg Float_lit_nonneg Float_fromInt_nonneg) simp_all
  from b d have "0 \<le> Float_add
        (Float_add (case i of Unknown \<Rightarrow> Float_lit 0.1 | _ \<Rightarrow> Float_lit 0.6)
                (Float_mul (Float_lit 0.1) (Float_fromInt (int (length es)))))
        (Float_mul (Float_lit 0.2)
                 (Float_div
                    (Float_fromInt
                       (int (length (filter (\<lambda>e. entityType e = ''ghl_object'') es))))
                    (Float_fromInt (int (length ws)))))"
    by (rule Float_add_nonneg)
  with b show ?thesis
    unfolding calculateConfidence_eq Let_def by (simp add: min_def)
qed

subsection \<open>The classifier\<close>

lemma detectIntent_Automation:
  "detectIntent words instruction = Automation t cs \<Longrightarrow>
     cs = extractConditions (Text_toLowercase instruction)"
  by (simp add: detectIntent_def Let_def split: if_splits)

lemma extractConditions_count:
  "count_list (extractConditions t) ''conditional'' =
     (if Text_contains t ''when'' then 1 else 0) + (if Text_contains t ''if'' then 1 else 0)"
  "count_list (extractConditions t) ''temporal'' =
     (if Text_contains t ''after'' then 1 else 0) + (if Text_contains t ''before'' then 1 else 0)"
  "length (extractConditions t) =
     count_list (extractConditions t) ''conditional''
     + count_list (extractConditions t) ''temporal''"
  by (simp_all add: extractConditions_def Let_def)

section \<open>The claims\<close>

subsection \<open>Approval of deletions\<close>

text \<open>
  Claim C1, as stated: every instruction whose keyword sequence contains a deletion-family
  keyword is interpreted with \<open>requiresApproval = true\<close>, whatever the priority.

  The families are tried in the order create, update, delete, and the first that has a
  keyword wins. ``add and remove contact'' holds the deletion keyword \<open>remove\<close> and the
  creation keyword \<open>add\<close>: it is classified \<open>Create contact\<close>, which needs no approval, even
  at priority 5.
\<close>

theorem deletion_keyword_without_approval:
  "set (extractKeywords ''add and remove contact'') \<inter> set deleteKeywords \<noteq> {}
   \<and> \<not> requiresApproval
         (interpretCommand ''add and remove contact''
            \<lparr>locationId = ''loc'', sourceMetadata = None, priority = 5, retryCount = 0\<rparr>)"
  unfolding hasAnyKeyword_iff [symmetric]
  by code_simp

text \<open>
  Claim C1, amended: every instruction whose keyword sequence contains a deletion-family
  keyword and no creation-family or update-family keyword is classified as a \<open>Delete\<close> and is
  interpreted with \<open>requiresApproval = true\<close>, for every context and so whatever the
  priority.
\<close>

theorem deletion_requires_approval:
  assumes "set (extractKeywords instruction) \<inter> set deleteKeywords \<noteq> {}"
    and "set (extractKeywords instruction) \<inter> set createKeywords = {}"
    and "set (extractKeywords instruction) \<inter> set updateKeywords = {}"
  shows "requiresApproval (interpretCommand instruction context')
         \<and> (\<exists>objectType identifier.
               intent (interpretCommand instruction context') = Delete objectType identifier)"
  using assms
  by (simp add: interpretCommand_def detectIntent_def Let_def hasAnyKeyword_iff)

theorem deletion_requires_approval_witness:
  "set (extractKeywords ''delete the opportunity'') \<inter> set deleteKeywords \<noteq> {}
   \<and> set (extractKeywords ''delete the opportunity'') \<inter> set createKeywords = {}
   \<and> set (extractKeywords ''delete the opportunity'') \<inter> set updateKeywords = {}
   \<and> requiresApproval
         (interpretCommand ''delete the opportunity''
            \<lparr>locationId = ''loc'', sourceMetadata = None, priority = 0, retryCount = 0\<rparr>)"
proof -
  have kw: "extractKeywords ''delete the opportunity'' = [''delete'', ''opportunity'']"
    by code_simp
  have d: "set (extractKeywords ''delete the opportunity'') \<inter> set deleteKeywords \<noteq> {}"
    unfolding kw by (simp add: deleteKeywords_def)
  have c: "set (extractKeywords ''delete the opportunity'') \<inter> set createKeywords = {}"
    unfolding kw by (simp add: createKeywords_def)
  have u: "set (extractKeywords ''delete the opportunity'') \<inter> set updateKeywords = {}"
    unfolding kw by (simp add: updateKeywords_def)
  show ?thesis
    using d c u deletion_requires_approval [OF d c u] by simp
qed

subsection \<open>Instructions of no keyword family\<close>

text \<open>
  Claim C2, as stated: an instruction whose keywords match none of the five families has
  intent \<open>Unknown\<close> and a confidence of at most \<open>0.1 + 0.1 \<times> entityCount\<close>.

  The scorer also adds \<open>0.2 \<times>\<close> the density of CRM objects among the keywords. The
  instruction ``contact'' matches no family and has one entity, and its confidence is the
  double \<open>0.4\<close>: above \<open>0.1 + 0.1 \<times> 1\<close>, whether that bound is taken exactly or in doubles.
\<close>

theorem unknown_confidence_above_bound:
  "set (extractKeywords ''contact'') \<inter> set createKeywords = {}
   \<and> set (extractKeywords ''contact'') \<inter> set updateKeywords = {}
   \<and> set (extractKeywords ''contact'') \<inter> set deleteKeywords = {}
   \<and> set (extractKeywords ''contact'') \<inter> set queryKeywords = {}
   \<and> set (extractKeywords ''contact'') \<inter> set automationKeywords = {}
   \<and> confidence (interpretCommand ''contact''
         \<lparr>locationId = ''loc'', sourceMetadata = None, priority = 1, retryCount = 0\<rparr>)
       > 0.1 + 0.1 * real (length (entities (interpretCommand ''contact''
         \<lparr>locationId = ''loc'', sourceMetadata = None, priority = 1, retryCount = 0\<rparr>)))
   \<and> confidence (interpretCommand ''contact''
         \<lparr>locationId = ''loc'', sourceMetadata = None, priority = 1, retryCount = 0\<rparr>)
       > Float_add (Float_lit 0.1)
           (Float_mul (Float_lit 0.1)
              (Float_fromInt (int (length (entities (interpretCommand ''contact''
         \<lparr>locationId = ''loc'', sourceMetadata = None, priority = 1, retryCount = 0\<rparr>))))))"
proof -
  have kw: "extractKeywords ''contact'' = [''contact'']"
    by code_simp
  have c: "confidence (interpretCommand ''contact''
         \<lparr>locationId = ''loc'', sourceMetadata = None, priority = 1, retryCount = 0\<rparr>)
       > 0.1 + 0.1 * real (length (entities (interpretCommand ''contact''
         \<lparr>locationId = ''loc'', sourceMetadata = None, priority = 1, retryCount = 0\<rparr>)))"
    by code_simp
  have f: "confidence (interpretCommand ''contact''
         \<lparr>locationId = ''loc'', sourceMetadata = None, priority = 1, retryCount = 0\<rparr>)
       > Float_add (Float_lit 0.1)
           (Float_mul (Float_lit 0.1)
              (Float_fromInt (int (length (entities (interpretCommand ''contact''
         \<lparr>locationId = ''loc'', sourceMetadata = None, priority = 1, retryCount = 0\<rparr>))))))"
    by code_simp
  have k: "set (extractKeywords ''contact'') \<inter> set createKeywords = {}
   \<and> set (extractKeywords ''contact'') \<inter> set updateKeywords = {}
   \<and> set (extractKeywords ''contact'') \<inter> set deleteKeywords = {}
   \<and> set (extractKeywords ''contact'') \<inter> set queryKeywords = {}
   \<and> set (extractKeywords ''contact'') \<inter> set automationKeywords = {}"
    unfolding kw
    by (simp add: createKeywords_def updateKeywords_def deleteKeywords_def queryKeywords_def
        automationKeywords_def)
  from k c f show ?thesis by blast
qed

text \<open>
  Claim C2, amended: an instruction whose keywords match none of the five families has
  intent \<open>Unknown\<close> and a confidence of at most \<open>0.1 + 0.1 \<times> entityCount\<close> plus, when there
  is a keyword at all, \<open>0.2 \<times>\<close> (number of \<open>ghl_object\<close> entities / number of keywords),
  this bound being computed as written, from left to right, in the double-precision
  arithmetic of the scorer.
\<close>

theorem unknown_confidence_bound:
  assumes "set (extractKeywords instruction) \<inter> set createKeywords = {}"
    and "set (extractKeywords instruction) \<inter> set updateKeywords = {}"
    and "set (extractKeywords instruction) \<inter> set deleteKeywords = {}"
    and "set (extractKeywords instruction) \<inter> set queryKeywords = {}"
    and "set (extractKeywords instruction) \<inter> set automationKeywords = {}"
  shows "intent (interpretCommand instruction context') = Unknown
         \<and> confidence (interpretCommand instruction context')
           \<le> (if extractKeywords instruction = []
               then Float_add (Float_lit 0.1)
                      (Float_mul (Float_lit 0.1)
                         (Float_fromInt
                            (int (length (entities (interpretCommand instruction context'))))))
               else Float_add
                      (Float_add (Float_lit 0.1)
                         (Float_mul (Float_lit 0.1)
                            (Float_fromInt
                               (int (length
                                  (entities (interpretCommand instruction context')))))))
                      (Float_mul (Float_lit 0.2)
                         (Float_div
                            (Float_fromInt
                               (int (length
                                  (filter (\<lambda>e. entityType e = ''ghl_object'')
                                     (entities (interpretCommand instruction context'))))))
                            (Float_fromInt (int (length (extractKeywords instruction)))))))"
proof -
  let ?ws = "extractKeywords instruction"
  have i: "detectIntent ?ws instruction = Unknown"
    using assms by (simp add: detectIntent_def Let_def hasAnyKeyword_iff)
  have int: "intent (interpretCommand instruction context') = Unknown"
    by (simp add: interpretCommand_def Let_def i)
  have ents: "entities (interpretCommand instruction context') = extractEntities ?ws instruction"
    by (simp add: interpretCommand_def Let_def)
  have conf: "confidence (interpretCommand instruction context')
              = calculateConfidence Unknown (extractEntities ?ws instruction) ?ws"
    by (simp add: interpretCommand_def Let_def i)
  show ?thesis
    unfolding int ents conf calculateConfidence_eq Let_def
    by (simp add: min_def)
qed

theorem unknown_confidence_bound_witness:
  "set (extractKeywords ''hello contact today'') \<inter> set createKeywords = {}
   \<and> set (extractKeywords ''hello contact today'') \<inter> set updateKeywords = {}
   \<and> set (extractKeywords ''hello contact today'') \<inter> set deleteKeywords = {}
   \<and> set (extractKeywords ''hello contact today'') \<inter> set queryKeywords = {}
   \<and> set (extractKeywords ''hello contact today'') \<inter> set automationKeywords = {}
   \<and> intent (interpretCommand ''hello contact today''
        \<lparr>locationId = ''loc'', sourceMetadata = None, priority = 1, retryCount = 0\<rparr>) = Unknown
   \<and> confidence (interpretCommand ''hello contact today''
        \<lparr>locationId = ''loc'', sourceMetadata = None, priority = 1, retryCount = 0\<rparr>)
       \<le> 825659931684591 / 2251799813685248"
proof -
  have kw: "extractKeywords ''hello contact today'' = [''hello'', ''contact'', ''today'']"
    by code_simp
  have c: "set (extractKeywords ''hello contact today'') \<inter> set createKeywords = {}"
    unfolding kw by (simp add: createKeywords_def)
  have u: "set (extractKeywords ''hello contact today'') \<inter> set updateKeywords = {}"
    unfolding kw by (simp add: updateKeywords_def)
  have d: "set (extractKeywords ''hello contact today'') \<inter> set deleteKeywords = {}"
    unfolding kw by (simp add: deleteKeywords_def)
  have q: "set (extractKeywords ''hello contact today'') \<inter> set queryKeywords = {}"
    unfolding kw by (simp add: queryKeywords_def)
  have a: "set (extractKeywords ''hello contact today'') \<inter> set automationKeywords = {}"
    unfolding kw by (simp add: automationKeywords_def)
  note t = unknown_confidence_bound [OF c u d q a,
      of "\<lparr>locationId = ''loc'', sourceMetadata = None, priority = 1, retryCount = 0\<rparr>"]
  have i: "intent (interpretCommand ''hello contact today''
        \<lparr>locationId = ''loc'', sourceMetadata = None, priority = 1, retryCount = 0\<rparr>) = Unknown"
    using t by (rule conjunct1)
  have le: "confidence (interpretCommand ''hello contact today''
        \<lparr>locationId = ''loc'', sourceMetadata = None, priority = 1, retryCount = 0\<rparr>)
       \<le> 825659931684591 / 2251799813685248"
    by (rule order_trans [OF t [THEN conjunct2]]) code_simp
  from c u d q a i le show ?thesis by blast
qed

subsection \<open>The form-submission scenario\<close>

text \<open>
  Claim C3, as stated: ``schedule an automation when a form is submitted'' is interpreted as
  \<open>Automation\<close> with trigger type \<open>form\<close>, conditions \<open>[conditional]\<close>, and approval required.

  The trigger type is the first keyword that is a trigger type, and \<open>schedule\<close>, the first
  keyword of the instruction, is one: the trigger type is \<open>schedule\<close>, not \<open>form\<close>.
\<close>

theorem form_scenario_trigger_not_form:
  "intent (interpretCommand ''schedule an automation when a form is submitted''
             \<lparr>locationId = ''loc'', sourceMetadata = None, priority = 1, retryCount = 0\<rparr>)
   \<noteq> Automation ''form'' [''conditional'']"
  by code_simp

text \<open>
  Claim C3, amended: for ``schedule an automation when a form is submitted'' and any
  context, the intent is \<open>Automation\<close> with trigger type \<open>schedule\<close> and conditions
  \<open>[conditional]\<close>, and approval is required.
\<close>

theorem form_scenario:
  "intent (interpretCommand ''schedule an automation when a form is submitted'' context')
     = Automation ''schedule'' [''conditional'']
   \<and> requiresApproval
         (interpretCommand ''schedule an automation when a form is submitted'' context')"
proof -
  have i: "detectIntent (extractKeywords ''schedule an automation when a form is submitted'')
             ''schedule an automation when a form is submitted''
           = Automation ''schedule'' [''conditional'']"
    by code_simp
  show ?thesis
    by (simp add: interpretCommand_def Let_def i)
qed

subsection \<open>Condition tags of an automation\<close>

text \<open>
  Claim C4, as stated: the conditions of an \<open>Automation\<close> hold \<open>conditional\<close> at most once,
  also when the instruction contains both ``when'' and ``if'' (and \<open>temporal\<close> at most once),
  so there are at most two conditions.

  Each of the four checks adds its own tag: with ``when'' and ``if'' both present,
  \<open>conditional\<close> is there twice.
\<close>

theorem conditional_tag_twice:
  "intent (interpretCommand ''schedule email when form submitted if contact active''
             \<lparr>locationId = ''loc'', sourceMetadata = None, priority = 1, retryCount = 0\<rparr>)
   = Automation ''schedule'' [''conditional'', ''conditional'']"
  by code_simp

text \<open>
  Claim C4, amended: for every instruction classified as \<open>Automation\<close>, the conditions hold
  \<open>conditional\<close> once for each of the substrings ``when'' and ``if'' that the lower-cased
  instruction contains, and \<open>temporal\<close> once for each of ``after'' and ``before''; they hold
  nothing else, so each tag is there at most twice and there are at most four conditions.
\<close>

theorem automation_conditions:
  assumes "intent (interpretCommand instruction context') = Automation triggerType conditions"
  shows "count_list conditions ''conditional'' =
           (if Text_contains (Text_toLowercase instruction) ''when'' then 1 else 0)
           + (if Text_contains (Text_toLowercase instruction) ''if'' then 1 else 0)
         \<and> count_list conditions ''temporal'' =
           (if Text_contains (Text_toLowercase instruction) ''after'' then 1 else 0)
           + (if Text_contains (Text_toLowercase instruction) ''before'' then 1 else 0)
         \<and> length conditions =
           count_list conditions ''conditional'' + count_list conditions ''temporal''
         \<and> count_list conditions ''conditional'' \<le> 2
         \<and> count_list conditions ''temporal'' \<le> 2
         \<and> length conditions \<le> 4"
proof -
  from assms have cs: "conditions = extractConditions (Text_toLowercase instruction)"
    by (simp add: interpretCommand_def Let_def detectIntent_Automation)
  show ?thesis unfolding cs extractConditions_count by simp
qed

theorem automation_conditions_witness:
  "intent (interpretCommand ''trigger webhook after payment before invoice if overdue''
             \<lparr>locationId = ''loc'', sourceMetadata = None, priority = 1, retryCount = 0\<rparr>)
     = Automation ''webhook'' [''conditional'', ''temporal'', ''temporal'']
   \<and> count_list [''conditional'', ''temporal'', ''temporal''] ''conditional'' = 1
   \<and> count_list [''conditional'', ''temporal'', ''temporal''] ''temporal'' = 2"
proof -
  have i: "intent (interpretCommand ''trigger webhook after payment before invoice if overdue''
             \<lparr>locationId = ''loc'', sourceMetadata = None, priority = 1, retryCount = 0\<rparr>)
     = Automation ''webhook'' [''conditional'', ''temporal'', ''temporal'']"
    by code_simp
  have w: "\<not> Text_contains
               (Text_toLowercase ''trigger webhook after payment before invoice if overdue'')
               ''when''"
    by code_simp
  have f: "Text_contains
             (Text_toLowercase ''trigger webhook after payment before invoice if overdue'') ''if''"
    by code_simp
  have a: "Text_contains
             (Text_toLowercase ''trigger webhook after payment before invoice if overdue'')
             ''after''"
    by code_simp
  have b: "Text_contains
             (Text_toLowercase ''trigger webhook after payment before invoice if overdue'')
             ''before''"
    by code_simp
  show ?thesis
    using i automation_conditions [OF i] w f a b by presburger
qed

subsection \<open>Order of the entities\<close>

text \<open>
  Claim C5, as stated: the entities are in the order of their source keywords, across all
  entity types, and duplicates are retained.

  The extractor runs three loops in a row, one per entity type. In ``today contact'' the
  keyword \<open>today\<close> comes before \<open>contact\<close>, and the entity of \<open>contact\<close> comes before the
  entity of \<open>today\<close>.
\<close>

theorem entities_not_in_keyword_order:
  "extractKeywords ''today contact'' = [''today'', ''contact'']
   \<and> entities (interpretCommand ''today contact''
         \<lparr>locationId = ''loc'', sourceMetadata = None, priority = 1, retryCount = 0\<rparr>)
     = [\<lparr>entityType = ''ghl_object'', entityValue = ''contact'', entityConfidence = Float_lit 0.9\<rparr>,
        \<lparr>entityType = ''time_reference'', entityValue = ''today'', entityConfidence = Float_lit 0.8\<rparr>]"
  by code_simp

text \<open>
  Claim C5, amended: for every instruction, the entity sequence is grouped by entity type:
  first the \<open>ghl_object\<close> entities, then the \<open>time_reference\<close> entities, then the \<open>number\<close>
  entities. Inside each group there is one entity for every occurrence of a matching
  keyword, in the order of the keyword sequence, so an entity whose keyword appears earlier
  precedes one of the same type whose keyword appears later, and duplicates are all retained.
\<close>

theorem entities_grouped_by_type:
  "entities (interpretCommand instruction context') =
     map (\<lambda>w. \<lparr>entityType = ''ghl_object'', entityValue = w, entityConfidence = Float_lit 0.9\<rparr>)
         (filter (\<lambda>w. w \<in> set ghlEntities) (extractKeywords instruction))
     @ map (\<lambda>w. \<lparr>entityType = ''time_reference'', entityValue = w, entityConfidence = Float_lit 0.8\<rparr>)
         (filter (\<lambda>w. w \<in> set timeWords) (extractKeywords instruction))
     @ map (\<lambda>w. \<lparr>entityType = ''number'', entityValue = w, entityConfidence = Float_lit 0.7\<rparr>)
         (filter (\<lambda>w. w \<in> {''1'', ''2'', ''5'', ''10''}) (extractKeywords instruction))"
  by (simp add: interpretCommand_def Let_def extractEntities_eq)

subsection \<open>Range of the confidence\<close>

text \<open>
  Claim C6: for every instruction and every context, the empty instruction included, the
  confidence of the interpretation lies between 0 and 1. (The score is computed in
  double-precision arithmetic; every rounding keeps a non-negative number non-negative, and
  the cap is exact.)
\<close>

theorem confidence_in_unit_interval:
  "0 \<le> confidence (interpretCommand instruction context')
   \<and> confidence (interpretCommand instruction context') \<le> 1"
  using calculateConfidence_bounds
  by (simp add: interpretCommand_def Let_def)

subsection \<open>The approval gate\<close>

text \<open>
  Claim C7: \<open>requiresApproval\<close> is the approval gate applied to the intent and the context,
  and the gate follows the decision table: true for every \<open>Delete\<close>; for a \<open>Create\<close>, true
  exactly when the object type is \<open>workflow\<close>, \<open>campaign\<close> or \<open>automation\<close>; true for every
  \<open>Automation\<close>; for \<open>Update\<close>, \<open>Query\<close> and \<open>Unknown\<close>, true exactly when the priority of
  the context is at least 3.
\<close>

theorem approval_decision_table:
  "requiresApproval (interpretCommand instruction context')
     = shouldRequireApproval (intent (interpretCommand instruction context')) context'
   \<and> shouldRequireApproval (Delete objectType identifier) context'
   \<and> shouldRequireApproval (Create objectType) context'
       = (objectType = ''workflow'' \<or> objectType = ''campaign'' \<or> objectType = ''automation'')
   \<and> shouldRequireApproval (Automation triggerType conditions) context'
   \<and> shouldRequireApproval (Update objectType identifier) context' = (3 \<le> priority context')
   \<and> shouldRequireApproval (Query objectType filters) context' = (3 \<le> priority context')
   \<and> shouldRequireApproval Unknown context' = (3 \<le> priority context')"
  by (simp add: interpretCommand_def Let_def)

subsection \<open>Voice formatting\<close>

text \<open>
  Claim C8: for every execution result whose status is \<open>Failed reason\<close>, the spoken text of
  the voice response is the apology followed by the reason, so it contains the reason, and
  the call is ended; the call is ended for no other status.
\<close>

theorem voice_failed:
  "spokenText (formatVoiceResponse (r\<lparr>status := Failed reason\<rparr>))
     = ''I'm sorry, but I encountered an issue: '' @ reason
   \<and> Text_contains (spokenText (formatVoiceResponse (r\<lparr>status := Failed reason\<rparr>))) reason
   \<and> shouldEndCall (formatVoiceResponse (r\<lparr>status := Failed reason\<rparr>))
   \<and> shouldEndCall (formatVoiceResponse r) = (\<exists>reason'. status r = Failed reason')"
proof -
  have e: "shouldEndCall (formatVoiceResponse r) = (\<exists>reason'. status r = Failed reason')"
    by (cases "status r") (simp_all add: formatVoiceResponse_def Let_def shouldEndVoiceCall_def)
  have s: "spokenText (formatVoiceResponse (r\<lparr>status := Failed reason\<rparr>))
     = ''I'm sorry, but I encountered an issue: '' @ reason"
    by (simp add: formatVoiceResponse_def Let_def generateSpokenText_def)
  have c: "Text_contains (spokenText (formatVoiceResponse (r\<lparr>status := Failed reason\<rparr>))) reason"
    unfolding s by (rule Text_contains_append)
  have f: "shouldEndCall (formatVoiceResponse (r\<lparr>status := Failed reason\<rparr>))"
    by (simp add: formatVoiceResponse_def Let_def shouldEndVoiceCall_def)
  from e s c f show ?thesis by blast
qed

subsection \<open>Workflow formatting\<close>

text \<open>
  Claim C9: for every execution result, the workflow decision is \<open>continue\<close> with next step
  \<open>next\<close> when the status is \<open>Completed\<close>, and its variables are then the three pairs of
  strings for the execution status, the command id and the duration; it is \<open>stop\<close> with next
  step \<open>error\<close> and no variables when the status is \<open>Failed\<close>; for every other status
  (\<open>Pending\<close>, \<open>Processing\<close>, \<open>PartialSuccess\<close>) it is \<open>wait\<close> with next step \<open>pending\<close> and
  no variables.
\<close>

theorem workflow_decision:
  "generateWorkflowDecision (r\<lparr>status := Completed\<rparr>)
     = \<lparr>decision = ''continue'', nextStep = ''next'',
        variables = [(''execution_status'', ''completed''),
                     (''command_id'', commandId r),
                     (''duration'', Nat_toText (duration r))]\<rparr>
   \<and> generateWorkflowDecision (r\<lparr>status := Failed reason\<rparr>)
     = \<lparr>decision = ''stop'', nextStep = ''error'', variables = []\<rparr>
   \<and> generateWorkflowDecision (r\<lparr>status := Pending\<rparr>)
     = \<lparr>decision = ''wait'', nextStep = ''pending'', variables = []\<rparr>
   \<and> generateWorkflowDecision (r\<lparr>status := Processing\<rparr>)
     = \<lparr>decision = ''wait'', nextStep = ''pending'', variables = []\<rparr>
   \<and> generateWorkflowDecision (r\<lparr>status := PartialSuccess warnings\<rparr>)
     = \<lparr>decision = ''wait'', nextStep = ''pending'', variables = []\<rparr>"
  by (simp add: generateWorkflowDecision_def generateWorkflowVariables_def Let_def
      del: Nat_toText.simps)

subsection \<open>Number entities\<close>

text \<open>
  Claim C10: no instruction yields an entity of type \<open>number\<close>. Every keyword has more than
  two characters, so none of the literals \<open>1\<close>, \<open>2\<close>, \<open>5\<close>, \<open>10\<close> is ever a keyword, and the
  loop that adds \<open>number\<close> entities never adds one.
\<close>

theorem no_number_entity:
  "set (extractKeywords instruction) \<inter> {''1'', ''2'', ''5'', ''10''} = {}
   \<and> ''number'' \<notin> entityType ` set (entities (interpretCommand instruction context'))"
proof -
  have k: "set (extractKeywords instruction) \<inter> {''1'', ''2'', ''5'', ''10''} = {}"
    using keyword_length [of _ instruction] by fastforce
  then have n: "filter (\<lambda>w. w \<in> {''1'', ''2'', ''5'', ''10''}) (extractKeywords instruction) = []"
    by (auto simp: filter_empty_conv)
  have "''number'' \<notin> entityType ` set (entities (interpretCommand instruction context'))"
    unfolding interpretCommand_def Let_def extractEntities_eq n
    by auto
  with k show ?thesis by blast
qed

end
